theory Spec2Isabelle
  imports Complex_Main "HOL-Library.Word"
begin

section \<open>Instagram Format Resizer: the fit-and-pad transform and the preset table\<close>

text \<open>
  A shallow embedding of \<^verbatim>\<open>IGFormatResizer.py\<close>. The program is one function,
  \<^verbatim>\<open>resize_with_transparent_bg\<close>, that drives the Pillow imaging library
  (open, thumbnail, new, paste, save), a dictionary \<^verbatim>\<open>PRESETS\<close>, and a Tkinter form.
  The Pillow operations the function calls are modelled here by what they do to the
  size and the pixels of an image; the resampling kernel (Lanczos) is floating-point
  convolution and stays a parameter of the model.
\<close>

subsection \<open>Images\<close>

text \<open>An RGBA pixel: four 8-bit channels, as \<^verbatim>\<open>(R, G, B, A)\<close>.\<close>

type_synonym pixel = "8 word \<times> 8 word \<times> 8 word \<times> 8 word"

definition alpha :: "pixel \<Rightarrow> 8 word" where
  "alpha p = (case p of (r, g, b, a) \<Rightarrow> a)"

text \<open>
  An image in mode RGBA: \<^verbatim>\<open>img.width\<close>, \<^verbatim>\<open>img.height\<close> and the pixel at column
  \<open>i\<close>, row \<open>j\<close> (meaningful for \<open>i < im_width\<close>, \<open>j < im_height\<close>).
\<close>

record image =
  im_width :: nat
  im_height :: nat
  im_pixel :: "nat \<Rightarrow> nat \<Rightarrow> pixel"

definition im_size :: "image \<Rightarrow> nat \<times> nat" where
  "im_size im = (im_width im, im_height im)"

subsection \<open>Exceptions\<close>

text \<open>
  The three classes the handlers of \<^verbatim>\<open>resize_with_transparent_bg\<close> tell apart.
  \<open>Exception\<close> stands for every exception that is neither a \<^verbatim>\<open>FileNotFoundError\<close> nor
  a \<^verbatim>\<open>PermissionError\<close> (ZeroDivisionError, ValueError, UnidentifiedImageError, other
  OSErrors): the last \<^verbatim>\<open>except\<close> clause takes them all. The argument is the message
  \<^verbatim>\<open>str(e)\<close>; for the two OS errors as the library raises them it is the file name of
  the error, which the handlers never read.
\<close>

datatype py_exception =
  FileNotFoundError string
| PermissionError string
| Exception string

subsection \<open>The file system the function reads and writes\<close>

text \<open>
  What a path holds, seen through \<^verbatim>\<open>Image.open(path).convert("RGBA")\<close>: nothing, a file
  the process may not read, bytes that do not decode (with the decoder's message), or a
  picture, given by its RGBA conversion.
\<close>

datatype node =
  Absent
| Unreadable
| Corrupt string
| Picture image

text \<open>
  How writing to a path fails, when it does: the open for writing is refused
  (\<^verbatim>\<open>PermissionError\<close>), the directory does not exist (\<^verbatim>\<open>FileNotFoundError\<close>), or
  the write breaks off after the file was opened (another \<^verbatim>\<open>OSError\<close>, such as a full
  disk), leaving behind whatever the library and the system left at the path.
\<close>

datatype write_fault =
  Denied
| No_directory
| Io_failure string node

record world =
  files :: "string \<Rightarrow> node"
  write_fault :: "string \<Rightarrow> write_fault option"
  resample :: "image \<Rightarrow> nat \<times> nat \<Rightarrow> nat \<Rightarrow> nat \<Rightarrow> pixel"

subsection \<open>The Pillow operations used\<close>

text \<open>\<^verbatim>\<open>Image.open(input_path).convert("RGBA")\<close>.\<close>

definition Image_open :: "world \<Rightarrow> string \<Rightarrow> py_exception + image" where
  "Image_open w path =
     (case files w path of
        Absent \<Rightarrow> Inl (FileNotFoundError path)
      | Unreadable \<Rightarrow> Inl (PermissionError path)
      | Corrupt msg \<Rightarrow> Inl (Exception msg)
      | Picture im \<Rightarrow> Inr im)"

text \<open>
  \<^verbatim>\<open>round_aspect(number, key)\<close> of \<^verbatim>\<open>Image.thumbnail\<close>:
  \<^verbatim>\<open>max(min(math.floor(number), math.ceil(number), key=key), 1)\<close>. Python's \<^verbatim>\<open>min\<close>
  returns the first of the smallest, here the floor. Python's floats are read as exact
  rationals.
\<close>

definition round_aspect :: "rat \<Rightarrow> (int \<Rightarrow> rat) \<Rightarrow> int" where
  "round_aspect number key =
     max (if key \<lceil>number\<rceil> < key \<lfloor>number\<rfloor> then \<lceil>number\<rceil> else \<lfloor>number\<rfloor>) 1"

text \<open>
  \<^verbatim>\<open>preserve_aspect_ratio()\<close> of \<^verbatim>\<open>Image.thumbnail\<close>: \<open>None\<close> when the image already
  fits the box \<open>(x, y)\<close>, else the size to shrink to. The two true divisions by an
  integer zero raise \<^verbatim>\<open>ZeroDivisionError\<close>.
\<close>

definition preserve_aspect_ratio :: "image \<Rightarrow> nat \<times> nat \<Rightarrow> py_exception + (nat \<times> nat) option" where
  "preserve_aspect_ratio im provided_size =
     (case provided_size of (x, y) \<Rightarrow>
        if x \<ge> im_width im \<and> y \<ge> im_height im then Inr None
        else if im_height im = 0 then Inl (Exception ''division by zero'')
        else
          let aspect = (of_nat (im_width im) / of_nat (im_height im) :: rat) in
          if y = 0 then Inl (Exception ''division by zero'')
          else if of_nat x / of_nat y \<ge> aspect then
            Inr (Some (nat (round_aspect (of_nat y * aspect)
                              (\<lambda>n. \<bar>aspect - of_int n / of_nat y\<bar>)), y))
          else
            Inr (Some (x, nat (round_aspect (of_nat x / aspect)
                              (\<lambda>n. if n = 0 then 0 else \<bar>aspect - of_nat x / of_int n\<bar>)))))"

text \<open>
  \<^verbatim>\<open>Image.resize(size, resample)\<close>: an image of exactly that size, its pixels computed by
  the resampling filter; the library refuses a size with no pixels.
\<close>

definition resize :: "world \<Rightarrow> image \<Rightarrow> nat \<times> nat \<Rightarrow> py_exception + image" where
  "resize w im sz =
     (case sz of (sx, sy) \<Rightarrow>
        if sx < 1 \<or> sy < 1 then Inl (Exception ''height and width must be > 0'')
        else Inr \<lparr>im_width = sx, im_height = sy, im_pixel = resample w im sz\<rparr>)"

text \<open>
  \<^verbatim>\<open>img.thumbnail((width, height), LANCZOS)\<close>: in place in Python, here the image after
  the call. An image that fits the box is left as it is; otherwise it is resized to the
  size \<^verbatim>\<open>preserve_aspect_ratio()\<close> gives, unless it has that size already.
\<close>

definition thumbnail :: "world \<Rightarrow> image \<Rightarrow> nat \<times> nat \<Rightarrow> py_exception + image" where
  "thumbnail w im sz =
     (case preserve_aspect_ratio im sz of
        Inl e \<Rightarrow> Inl e
      | Inr None \<Rightarrow> Inr im
      | Inr (Some final_size) \<Rightarrow>
          if im_size im \<noteq> final_size then resize w im final_size else Inr im)"

text \<open>\<^verbatim>\<open>Image.new("RGBA", (width, height), color)\<close>: every pixel is \<open>color\<close>.\<close>

definition Image_new :: "nat \<times> nat \<Rightarrow> pixel \<Rightarrow> image" where
  "Image_new sz color =
     \<lparr>im_width = fst sz, im_height = snd sz, im_pixel = (\<lambda>i j. color)\<rparr>"

text \<open>
  The blend of the library's paste with a mask, on one channel:
  \<^verbatim>\<open>DIV255(in1 * (255 - mask) + in2 * mask)\<close>, where \<^verbatim>\<open>DIV255(a)\<close> is
  \<^verbatim>\<open>tmp = a + 128, ((tmp >> 8) + tmp) >> 8\<close> on C ints, stored to a byte.
\<close>

definition DIV255 :: "nat \<Rightarrow> nat" where
  "DIV255 a = (let tmp = a + 128 in (tmp div 256 + tmp) div 256)"

definition BLEND8 :: "8 word \<Rightarrow> 8 word \<Rightarrow> 8 word \<Rightarrow> 8 word" where
  "BLEND8 msk in1 in2 =
     word_of_nat (DIV255 (unat in1 * (255 - unat msk) + unat in2 * unat msk))"

definition blend_pixel :: "8 word \<Rightarrow> pixel \<Rightarrow> pixel \<Rightarrow> pixel" where
  "blend_pixel msk out inp =
     (case out of (r1, g1, b1, a1) \<Rightarrow> case inp of (r2, g2, b2, a2) \<Rightarrow>
        (BLEND8 msk r1 r2, BLEND8 msk g1 g2, BLEND8 msk b1 b2, BLEND8 msk a1 a2))"

text \<open>
  \<^verbatim>\<open>canvas.paste(im, (x, y), mask)\<close> with an RGBA mask of the size of \<open>im\<close>: inside
  the box of \<open>im\<close> placed at \<open>(x, y)\<close>, clipped to the canvas, every channel of the
  canvas is blended with \<open>im\<close> under the mask's alpha band; elsewhere the canvas is
  untouched. The size of the canvas does not change.
\<close>

definition in_box :: "int \<Rightarrow> int \<Rightarrow> image \<Rightarrow> nat \<Rightarrow> nat \<Rightarrow> bool" where
  "in_box x y im i j =
     (x \<le> int i \<and> int i < x + int (im_width im) \<and>
      y \<le> int j \<and> int j < y + int (im_height im))"

definition paste :: "image \<Rightarrow> image \<Rightarrow> int \<times> int \<Rightarrow> image \<Rightarrow> image" where
  "paste canvas im box msk =
     (case box of (x, y) \<Rightarrow>
        canvas\<lparr>im_pixel := (\<lambda>i j.
          if in_box x y im i j then
            blend_pixel (alpha (im_pixel msk (nat (int i - x)) (nat (int j - y))))
              (im_pixel canvas i j) (im_pixel im (nat (int i - x)) (nat (int j - y)))
          else im_pixel canvas i j)\<rparr>)"

text \<open>\<^verbatim>\<open>canvas.save(output_path, format="PNG")\<close>: written straight to the path.\<close>

definition Image_save :: "world \<Rightarrow> image \<Rightarrow> string \<Rightarrow> py_exception + world" where
  "Image_save w im path =
     (case write_fault w path of
        None \<Rightarrow> Inr (w\<lparr>files := (files w)(path := Picture im)\<rparr>)
      | Some Denied \<Rightarrow> Inl (PermissionError path)
      | Some No_directory \<Rightarrow> Inl (FileNotFoundError path)
      | Some (Io_failure msg left) \<Rightarrow> Inl (Exception msg))"

text \<open>The file system after a call of \<^verbatim>\<open>save\<close>, also when it raised.\<close>

definition after_save :: "world \<Rightarrow> image \<Rightarrow> string \<Rightarrow> world" where
  "after_save w im path =
     (case write_fault w path of
        None \<Rightarrow> w\<lparr>files := (files w)(path := Picture im)\<rparr>
      | Some Denied \<Rightarrow> w
      | Some No_directory \<Rightarrow> w
      | Some (Io_failure msg left) \<Rightarrow> w\<lparr>files := (files w)(path := left)\<rparr>)"

subsection \<open>The transform\<close>

text \<open>
  The centred paste coordinates: \<^verbatim>\<open>x = (width - img.width) // 2\<close> and
  \<^verbatim>\<open>y = (height - img.height) // 2\<close>, in Python's integers and floor division.
\<close>

definition paste_coordinates :: "nat \<Rightarrow> nat \<Rightarrow> image \<Rightarrow> int \<times> int" where
  "paste_coordinates width height img =
     ((int width - int (im_width img)) div 2, (int height - int (im_height img)) div 2)"

text \<open>
  The body of the \<^verbatim>\<open>try\<close> of \<^verbatim>\<open>resize_with_transparent_bg\<close>: its result, or the
  exception raised inside it, and the file system afterwards. Both branches of the
  inner \<^verbatim>\<open>try\<close> make the same call of \<^verbatim>\<open>thumbnail\<close>, with the same filter under its
  two names. The caller, \<^verbatim>\<open>run_conversion\<close>, passes positive integers only.
\<close>

definition try_body :: "world \<Rightarrow> string \<Rightarrow> string \<Rightarrow> nat \<Rightarrow> nat \<Rightarrow> (py_exception + bool) \<times> world" where
  "try_body w input_path output_path width height =
     (case Image_open w input_path of
        Inl e \<Rightarrow> (Inl e, w)
      | Inr img0 \<Rightarrow>
          (case thumbnail w img0 (width, height) of
             Inl e \<Rightarrow> (Inl e, w)
           | Inr img \<Rightarrow>
               let canvas = Image_new (width, height) (0, 0, 0, 0);
                   canvas = paste canvas img (paste_coordinates width height img) img
               in (case Image_save w canvas output_path of
                     Inl e \<Rightarrow> (Inl e, after_save w canvas output_path)
                   | Inr w' \<Rightarrow> (Inr True, w'))))"

text \<open>The three \<^verbatim>\<open>except\<close> clauses, in their order.\<close>

definition handler :: "string \<Rightarrow> string \<Rightarrow> py_exception \<Rightarrow> py_exception" where
  "handler input_path output_path e =
     (case e of
        FileNotFoundError m \<Rightarrow> FileNotFoundError (''Could not find input file: '' @ input_path)
      | PermissionError m \<Rightarrow> PermissionError (''Permission denied when saving to: '' @ output_path)
      | Exception m \<Rightarrow> Exception (''Error processing image: '' @ m))"

definition resize_with_transparent_bg ::
    "world \<Rightarrow> string \<Rightarrow> string \<Rightarrow> nat \<Rightarrow> nat \<Rightarrow> (py_exception + bool) \<times> world" where
  "resize_with_transparent_bg w input_path output_path width height =
     (case try_body w input_path output_path width height of
        (Inl e, w') \<Rightarrow> (Inl (handler input_path output_path e), w')
      | (Inr ok, w') \<Rightarrow> (Inr ok, w'))"



subsection \<open>The scaled size in the words of the specification\<close>



subsection \<open>The preset table and the form's callback\<close>

text \<open>
  The keys of \<^verbatim>\<open>PRESETS\<close>. A Python string is a sequence of code points; the
  multiplication sign of the labels is the code point \<open>0xD7\<close>.
\<close>

definition Square_label :: string where
  "Square_label = ''Square (1:1) 1080'' @ [CHR 0xD7] @ ''1080''"

definition Portrait_label :: string where
  "Portrait_label = ''Portrait (4:5) 1080'' @ [CHR 0xD7] @ ''1350''"

definition Landscape_label :: string where
  "Landscape_label = ''Landscape (16:9) 1080'' @ [CHR 0xD7] @ ''606''"

definition PRESETS :: "(string \<times> nat \<times> nat) list" where
  "PRESETS =
     [(Square_label, (1080, 1080)),
      (Portrait_label, (1080, 1350)),
      (Landscape_label, (1080, 606))]"

text \<open>\<^verbatim>\<open>d[key]\<close> (\<open>None\<close>: KeyError) and \<^verbatim>\<open>d.get(key, default)\<close>.\<close>

definition dict_getitem :: "('k \<times> 'v) list \<Rightarrow> 'k \<Rightarrow> 'v option" where
  "dict_getitem d key = map_of d key"

definition dict_get :: "('k \<times> 'v) list \<Rightarrow> 'k \<Rightarrow> 'v \<Rightarrow> 'v" where
  "dict_get d key dflt = (case map_of d key of None \<Rightarrow> dflt | Some v \<Rightarrow> v)"

text \<open>\<^verbatim>\<open>str(n)\<close> for a non-negative integer.\<close>

fun str :: "nat \<Rightarrow> string" where
  "str n = (if n < 10 then [char_of (48 + n)] else str (n div 10) @ [char_of (48 + n mod 10)])"

text \<open>The Tk variables of the form that the callback reads and writes.\<close>

record form =
  preset_var :: string
  width_var :: string
  height_var :: string

text \<open>
  \<^verbatim>\<open>on_preset_change\<close>: the default of the lookup is evaluated first, by subscript
  (\<open>None\<close>: it raised KeyError).
\<close>

definition on_preset_change :: "form \<Rightarrow> form option" where
  "on_preset_change f =
     (case dict_getitem PRESETS Portrait_label of
        None \<Rightarrow> None
      | Some dflt \<Rightarrow>
          (case dict_get PRESETS (preset_var f) dflt of (w, h) \<Rightarrow>
             Some (f\<lparr>width_var := str w, height_var := str h\<rparr>)))"

subsection \<open>Concrete inputs\<close>

text \<open>
  A picture of the given size, opaque but for a fully transparent pixel in its top left
  corner.
\<close>

definition sample :: "nat \<Rightarrow> nat \<Rightarrow> image" where
  "sample a b =
     \<lparr>im_width = a, im_height = b,
      im_pixel = (\<lambda>i j. if i = 0 \<and> j = 0 then (9, 9, 9, 0) else (10, 20, 30, 255))\<rparr>"

text \<open>A stand-in for the resampling filter: nearest-neighbour sampling.\<close>

definition nearest :: "image \<Rightarrow> nat \<times> nat \<Rightarrow> nat \<Rightarrow> nat \<Rightarrow> pixel" where
  "nearest im sz i j =
     im_pixel im (i * im_width im div fst sz) (j * im_height im div snd sz)"

text \<open>
  A disk with five files: three pictures, a file that may not be read and a truncated one.
  One directory refuses writes, one does not exist, and writing over \<open>old.png\<close>
  runs out of space and leaves a truncated file.
\<close>

definition disk :: world where
  "disk =
     \<lparr>files = (\<lambda>p. if p = ''in.png'' then Picture (sample 500 500)
                    else if p = ''big.jpg'' then Picture (sample 2000 1000)
                    else if p = ''old.png'' then Picture (sample 8 8)
                    else if p = ''locked.png'' then Unreadable
                    else if p = ''cut.png'' then Corrupt ''image file is truncated''
                    else Absent),
      write_fault = (\<lambda>p. if p = ''ro/out.png'' then Some Denied
                    else if p = ''nodir/out.png'' then Some No_directory
                    else if p = ''old.png''
                      then Some (Io_failure ''[Errno 28] No space left on device''
                                   (Corrupt ''image file is truncated''))
                    else None),
      resample = nearest\<rparr>"

section \<open>Properties\<close>

subsection \<open>Facts about the library operations\<close>


lemma paste_size [simp]:
  "im_width (paste canvas im box msk) = im_width canvas"
  "im_height (paste canvas im box msk) = im_height canvas"
  by (simp_all add: paste_def split: prod.splits)

lemma Image_new_size [simp]:
  "im_width (Image_new (a, b) c) = a" "im_height (Image_new (a, b) c) = b"
  by (simp_all add: Image_new_def)








subsection \<open>The size thumbnail scales to\<close>









subsection \<open>A run that opens, scales and saves\<close>



subsection \<open>Centring\<close>



subsection \<open>The size of the output\<close>



subsection \<open>No upscaling\<close>

text \<open>
  Claim C3. A source no wider and no taller than the target box is not scaled at all:
  \<open>thumbnail\<close> returns the image it was given, so the scaled size is the source's.
\<close>

theorem no_upscaling:
  assumes "im_width im \<le> target_width" and "im_height im \<le> target_height"
  shows "thumbnail w im (target_width, target_height) = Inr im"
  using assms by (simp add: thumbnail_def preserve_aspect_ratio_def)

text \<open>
  The 500 by 500 source in the 1080 by 1350 box stays 500 by 500 and is pasted at
  (290, 425).
\<close>

theorem no_upscaling_witness:
  "im_width (sample 500 500) \<le> 1080 \<and> im_height (sample 500 500) \<le> 1350
   \<and> thumbnail disk (sample 500 500) (1080, 1350) = Inr (sample 500 500)
   \<and> paste_coordinates 1080 1350 (sample 500 500) = (290, 425)"
  using no_upscaling [of "sample 500 500" 1080 1350 disk]
  by (simp add: sample_def paste_coordinates_def)

subsection \<open>Padding and the alpha-aware paste\<close>





subsection \<open>Preset selection\<close>

lemma str_1080: "str 1080 = ''1080''" by code_simp

lemma str_1350: "str 1350 = ''1350''" by code_simp

lemma str_606: "str 606 = ''606''" by code_simp

lemma PRESETS_lookup:
  "map_of PRESETS Square_label = Some (1080, 1080)"
  "map_of PRESETS Portrait_label = Some (1080, 1350)"
  "map_of PRESETS Landscape_label = Some (1080, 606)"
  by (simp_all add: PRESETS_def Square_label_def Portrait_label_def Landscape_label_def)

text \<open>
  Claim C9. With one of the three labels selected, the callback sets the width and
  height fields to that preset's pair: 1080 by 1080, 1080 by 1350, 1080 by 606. With
  any value that is not a key of \<open>PRESETS\<close> the lookup falls back to the Portrait
  entry (1080, 1350) and the callback returns normally: no KeyError.
\<close>

theorem preset_selection:
  "on_preset_change (f\<lparr>preset_var := Square_label\<rparr>) =
     Some (f\<lparr>preset_var := Square_label, width_var := ''1080'', height_var := ''1080''\<rparr>)
   \<and> on_preset_change (f\<lparr>preset_var := Portrait_label\<rparr>) =
     Some (f\<lparr>preset_var := Portrait_label, width_var := ''1080'', height_var := ''1350''\<rparr>)
   \<and> on_preset_change (f\<lparr>preset_var := Landscape_label\<rparr>) =
     Some (f\<lparr>preset_var := Landscape_label, width_var := ''1080'', height_var := ''606''\<rparr>)
   \<and> (preset_var f \<notin> fst ` set PRESETS \<longrightarrow>
        dict_get PRESETS (preset_var f) (1080, 1350) = (1080, 1350)
        \<and> on_preset_change f = Some (f\<lparr>width_var := ''1080'', height_var := ''1350''\<rparr>))"
proof -
  have miss: "map_of PRESETS (preset_var f) = None" if "preset_var f \<notin> fst ` set PRESETS"
    using that by (simp add: map_of_eq_None_iff)
  show ?thesis
    by (simp add: on_preset_change_def dict_getitem_def dict_get_def PRESETS_lookup miss
          str_1080 str_1350 str_606 del: str.simps)
qed

text \<open>
  A label that is not in the table, and the Square label.
\<close>

theorem preset_selection_witness:
  "preset_var \<lparr>preset_var = ''Story (9:16)'', width_var = ''7'', height_var = ''7''\<rparr>
     \<notin> fst ` set PRESETS
   \<and> on_preset_change \<lparr>preset_var = ''Story (9:16)'', width_var = ''7'', height_var = ''7''\<rparr> =
     Some \<lparr>preset_var = ''Story (9:16)'', width_var = ''1080'', height_var = ''1350''\<rparr>
   \<and> on_preset_change \<lparr>preset_var = Square_label, width_var = ''7'', height_var = ''7''\<rparr> =
     Some \<lparr>preset_var = Square_label, width_var = ''1080'', height_var = ''1080''\<rparr>"
proof -
  have n: "preset_var \<lparr>preset_var = ''Story (9:16)'', width_var = ''7'', height_var = ''7''\<rparr>
     \<notin> fst ` set PRESETS"
    by (simp add: PRESETS_def Square_label_def Portrait_label_def Landscape_label_def)
  show ?thesis
    using preset_selection [of "\<lparr>preset_var = ''Story (9:16)'', width_var = ''7'', height_var = ''7''\<rparr>"] n
    by simp
qed

subsection \<open>Permission errors\<close>

text \<open>
  Claim C10. A file that may not be read makes the body of the \<open>try\<close> raise
  PermissionError while opening the source; and whenever the body raises a
  PermissionError, wherever it comes from, the call signals a PermissionError whose
  message is \<open>Permission denied when saving to: \<close> followed by the output path. The
  input path is not part of the message.
\<close>

theorem permission_error_names_output:
  "(files w input_path = Unreadable \<longrightarrow>
      fst (try_body w input_path output_path width height) = Inl (PermissionError input_path))
   \<and> (fst (try_body w input_path output_path width height) = Inl (PermissionError m) \<longrightarrow>
      fst (resize_with_transparent_bg w input_path output_path width height) =
        Inl (PermissionError (''Permission denied when saving to: '' @ output_path)))"
proof -
  have a: "fst (try_body w input_path output_path width height) = Inl (PermissionError input_path)"
    if "files w input_path = Unreadable"
    using that by (simp add: try_body_def Image_open_def)
  have b: "fst (resize_with_transparent_bg w input_path output_path width height) =
        Inl (PermissionError (''Permission denied when saving to: '' @ output_path))"
    if "fst (try_body w input_path output_path width height) = Inl (PermissionError m)"
  proof (cases "try_body w input_path output_path width height")
    case (Pair r w')
    then show ?thesis using that
      by (simp add: resize_with_transparent_bg_def handler_def)
  qed
  show ?thesis using a b by blast
qed

text \<open>
  Opening \<open>locked.png\<close> is refused; the failure names \<open>out.png\<close>.
\<close>

theorem permission_error_names_output_witness:
  "files disk ''locked.png'' = Unreadable
   \<and> fst (try_body disk ''locked.png'' ''out.png'' 1080 1350) = Inl (PermissionError ''locked.png'')
   \<and> fst (resize_with_transparent_bg disk ''locked.png'' ''out.png'' 1080 1350) =
        Inl (PermissionError ''Permission denied when saving to: out.png'')"
proof -
  have u: "files disk ''locked.png'' = Unreadable" by (simp add: disk_def)
  show ?thesis
    using permission_error_names_output [of disk "''locked.png''" "''out.png''" 1080 1350 "''locked.png''"] u
    by simp
qed

subsection \<open>The scaled size against the specification's formula\<close>






subsection \<open>Failures of the source\<close>

text \<open>
  Claim C7, as stated, fails. A truncated source is reported as the generic
  \<open>Exception\<close> with the decoder's message, which is not the failure that names the
  input path; a source that may not be read is reported as a \<open>PermissionError\<close> that
  names the output path.
\<close>

theorem source_unreadable_counterexample:
  "files disk ''cut.png'' = Corrupt ''image file is truncated''
   \<and> fst (resize_with_transparent_bg disk ''cut.png'' ''out.png'' 1080 1350) =
        Inl (Exception ''Error processing image: image file is truncated'')
   \<and> fst (resize_with_transparent_bg disk ''cut.png'' ''out.png'' 1080 1350) \<noteq>
        Inl (FileNotFoundError ''Could not find input file: cut.png'')
   \<and> files disk ''locked.png'' = Unreadable
   \<and> fst (resize_with_transparent_bg disk ''locked.png'' ''out.png'' 1080 1350) =
        Inl (PermissionError ''Permission denied when saving to: out.png'')"
  by (simp add: resize_with_transparent_bg_def try_body_def Image_open_def handler_def disk_def)

text \<open>
  Claim C7, amended. For an input path that does not exist the call signals
  \<open>FileNotFoundError\<close> with the message \<open>Could not find input file: \<close> followed by the
  input path; for a source that does not decode it signals the generic \<open>Exception\<close>
  with \<open>Error processing image: \<close> followed by the decoder's message. In both cases
  the file system is left as it was: no output file is created or modified.
\<close>

theorem source_failure_reported:
  "(files w input_path = Absent \<longrightarrow>
      resize_with_transparent_bg w input_path output_path width height =
        (Inl (FileNotFoundError (''Could not find input file: '' @ input_path)), w))
   \<and> (files w input_path = Corrupt msg \<longrightarrow>
      resize_with_transparent_bg w input_path output_path width height =
        (Inl (Exception (''Error processing image: '' @ msg)), w))"
  by (simp add: resize_with_transparent_bg_def try_body_def Image_open_def handler_def)

text \<open>
  A missing file and a truncated one.
\<close>

theorem source_failure_reported_witness:
  "files disk ''gone.png'' = Absent
   \<and> resize_with_transparent_bg disk ''gone.png'' ''out.png'' 1080 1350 =
        (Inl (FileNotFoundError ''Could not find input file: gone.png''), disk)
   \<and> files disk ''cut.png'' = Corrupt ''image file is truncated''
   \<and> resize_with_transparent_bg disk ''cut.png'' ''out.png'' 1080 1350 =
        (Inl (Exception ''Error processing image: image file is truncated''), disk)"
proof -
  have a: "files disk ''gone.png'' = Absent" by (simp add: disk_def)
  have c: "files disk ''cut.png'' = Corrupt ''image file is truncated''" by (simp add: disk_def)
  show ?thesis
    using source_failure_reported [of disk "''gone.png''" "''out.png''" 1080 1350 "''x''"]
      source_failure_reported [of disk "''cut.png''" "''out.png''" 1080 1350 "''image file is truncated''"]
      a c
    by simp
qed

subsection \<open>Failures of the destination\<close>




end
